theory Spec2Isabelle
  imports Complex_Main "HOL-Library.Sublist" "HOL-Library.Log_Nat" "HOL-Library.Multiset"
begin

section \<open>Python values and string operations used by connection\_parser.py\<close>

text \<open>
  The development embeds the parsing and classification engine of
  \<^verbatim>\<open>src/connection_parser.py\<close> (class \<^verbatim>\<open>ConnectionParser\<close>).  Every
  function keeps the name it has in the source, without the leading underscore of the
  private methods.  A Python exception is a value of type \<open>error\<close>; a function that can
  raise returns \<open>error + 'a\<close>, with \<open>Inl\<close> for the exception.

  Text is a \<open>string\<close> (a list of 8-bit characters).  The connection table dumps are ASCII,
  and the character classes below are Python's \<^verbatim>\<open>str.isspace\<close> and the regular
  expression classes \<^verbatim>\<open>\s\<close>, \<^verbatim>\<open>\d\<close> on ASCII; a character above 127 is
  treated as neither whitespace nor digit.
\<close>

datatype error = ValueError | IndexError | KeyError | ZeroDivisionError | OverflowError

definition ebind :: "error + 'a \<Rightarrow> ('a \<Rightarrow> error + 'b) \<Rightarrow> error + 'b" where
  "ebind m f = (case m of Inl e \<Rightarrow> Inl e | Inr x \<Rightarrow> f x)"

text \<open>Whitespace: tab, line feed, vertical tab, form feed, carriage return, the four
  separators 0x1C to 0x1F, and space.\<close>

definition is_space :: "char \<Rightarrow> bool" where
  "is_space c = (let n = (of_char c :: nat) in (9 \<le> n \<and> n \<le> 13) \<or> (28 \<le> n \<and> n \<le> 32))"

definition is_digit :: "char \<Rightarrow> bool" where
  "is_digit c = (let n = (of_char c :: nat) in 48 \<le> n \<and> n \<le> 57)"

definition non_space :: "char \<Rightarrow> bool" where
  "non_space c = (\<not> is_space c)"

text \<open>\<^verbatim>\<open>s.rstrip(chars)\<close>, \<^verbatim>\<open>s.strip()\<close> and \<^verbatim>\<open>s.startswith(p)\<close>.\<close>

definition rstrip_where :: "(char \<Rightarrow> bool) \<Rightarrow> string \<Rightarrow> string" where
  "rstrip_where P s = rev (dropWhile P (rev s))"

definition rstrip_char :: "char \<Rightarrow> string \<Rightarrow> string" where
  "rstrip_char c s = rstrip_where (\<lambda>x. x = c) s"

definition strip :: "string \<Rightarrow> string" where
  "strip s = rstrip_where is_space (dropWhile is_space s)"

definition startswith :: "string \<Rightarrow> string \<Rightarrow> bool" where
  "startswith s p = prefix p s"

text \<open>\<^verbatim>\<open>sub in s\<close>: the substring test.\<close>

fun contains :: "string \<Rightarrow> string \<Rightarrow> bool" where
  "contains sub [] = (sub = [])"
| "contains sub (c # cs) = (prefix sub (c # cs) \<or> contains sub cs)"

text \<open>\<^verbatim>\<open>s.split()\<close>: the maximal runs of non-whitespace characters, in order.  The
  first argument is the token being read, reversed.\<close>

fun split_ws_from :: "string \<Rightarrow> string \<Rightarrow> string list" where
  "split_ws_from cur [] = (if cur = [] then [] else [rev cur])"
| "split_ws_from cur (c # cs) =
     (if is_space c then (if cur = [] then split_ws_from [] cs else rev cur # split_ws_from [] cs)
      else split_ws_from (c # cur) cs)"

definition split_ws :: "string \<Rightarrow> string list" where
  "split_ws s = split_ws_from [] s"

text \<open>\<^verbatim>\<open>s.split(sep)\<close> for a non-empty separator: the pieces between the
  occurrences of \<open>sep\<close>, found from the left without overlap.  \<open>skip\<close> counts the
  characters of a separator just found that are still to be passed over; \<open>cur\<close> is the
  piece being read, reversed.\<close>

fun split_from :: "string \<Rightarrow> nat \<Rightarrow> string \<Rightarrow> string \<Rightarrow> string list" where
  "split_from sep skip cur [] = [rev cur]"
| "split_from sep skip cur (c # cs) =
     (if 0 < skip then split_from sep (skip - 1) cur cs
      else if prefix sep (c # cs) then rev cur # split_from sep (length sep - 1) [] cs
      else split_from sep 0 (c # cur) cs)"

definition split :: "string \<Rightarrow> string \<Rightarrow> string list" where
  "split sep s = split_from sep 0 [] s"

text \<open>\<^verbatim>\<open>s.replace(old, '')\<close> for a non-empty \<open>old\<close>: every occurrence, found from
  the left without overlap, is removed.\<close>

fun remove_from :: "string \<Rightarrow> nat \<Rightarrow> string \<Rightarrow> string" where
  "remove_from old skip [] = []"
| "remove_from old skip (c # cs) =
     (if 0 < skip then remove_from old (skip - 1) cs
      else if prefix old (c # cs) then remove_from old (length old - 1) cs
      else c # remove_from old 0 cs)"

definition remove_all :: "string \<Rightarrow> string \<Rightarrow> string" where
  "remove_all old s = remove_from old 0 s"

text \<open>\<^verbatim>\<open>s.isdigit()\<close> and \<^verbatim>\<open>int(s)\<close> on a string of decimal digits;
  \<^verbatim>\<open>int\<close> raises ValueError on anything else the source can pass to it.\<close>

definition isdigit :: "string \<Rightarrow> bool" where
  "isdigit s = (s \<noteq> [] \<and> list_all is_digit s)"

definition digit_value :: "char \<Rightarrow> int" where
  "digit_value c = int (of_char c) - 48"

definition digits_value :: "string \<Rightarrow> int" where
  "digits_value s = foldl (\<lambda>a c. 10 * a + digit_value c) 0 s"

definition py_int :: "string \<Rightarrow> error + int" where
  "py_int s = (if isdigit s then Inr (digits_value s) else Inl ValueError)"

subsection \<open>Regular expressions\<close>

text \<open>
  \<^verbatim>\<open>re.search(pattern, s)\<close> tries the pattern at every start position from the left
  and returns the first match.  \<open>re_search m s\<close> does this for a matcher \<open>m\<close> that matches
  its pattern at the start of a string and returns group 1.  In each pattern of the source
  a greedy repetition is followed by a character outside its class (or by the end of the
  pattern), so giving back characters never turns a failed match into a match, and each
  matcher takes the maximal run.
\<close>

fun re_search :: "(string \<Rightarrow> string option) \<Rightarrow> string \<Rightarrow> string option" where
  "re_search m [] = m []"
| "re_search m (c # cs) = (case m (c # cs) of Some g \<Rightarrow> Some g | None \<Rightarrow> re_search m cs)"

text \<open>\<^verbatim>\<open>(\d+)U\<close> for a unit letter \<open>U\<close>.\<close>

definition match_digits_unit :: "char \<Rightarrow> string \<Rightarrow> string option" where
  "match_digits_unit u s =
     (let ds = takeWhile is_digit s; rest = dropWhile is_digit s
      in if ds \<noteq> [] \<and> prefix [u] rest then Some ds else None)"

text \<open>\<^verbatim>\<open>kw\s+(\S+)\<close> and \<^verbatim>\<open>kw\s+(\d+)\<close> for a keyword \<open>kw\<close>.\<close>

definition match_kw_token :: "string \<Rightarrow> string \<Rightarrow> string option" where
  "match_kw_token kw s =
     (if prefix kw s then
        (let r = drop (length kw) s; ws = takeWhile is_space r; r' = dropWhile is_space r;
             tok = takeWhile non_space r'
         in if ws \<noteq> [] \<and> tok \<noteq> [] then Some tok else None)
      else None)"

definition match_kw_digits :: "string \<Rightarrow> string \<Rightarrow> string option" where
  "match_kw_digits kw s =
     (if prefix kw s then
        (let r = drop (length kw) s; ws = takeWhile is_space r; r' = dropWhile is_space r;
             ds = takeWhile is_digit r'
         in if ws \<noteq> [] \<and> ds \<noteq> [] then Some ds else None)
      else None)"

text \<open>\<^verbatim>\<open>(Internal-Data\S+)\<close>: the group holds the keyword too.\<close>

definition match_internal_data :: "string \<Rightarrow> string option" where
  "match_internal_data s =
     (if prefix ''Internal-Data'' s then
        (let tok = takeWhile non_space (drop (length ''Internal-Data'') s)
         in if tok \<noteq> [] then Some (''Internal-Data'' @ tok) else None)
      else None)"

text \<open>\<^verbatim>\<open>\d+\.\d+\.\d+\.\d+\<close> at the start of a string: four runs of digits with a
  dot between them.\<close>

definition match_dotted_quad :: "string \<Rightarrow> string option" where
  "match_dotted_quad s =
     (let a = takeWhile is_digit s; s1 = dropWhile is_digit s in
      if a = [] \<or> \<not> prefix ''.'' s1 then None else
      let b = takeWhile is_digit (tl s1); s2 = dropWhile is_digit (tl s1) in
      if b = [] \<or> \<not> prefix ''.'' s2 then None else
      let c = takeWhile is_digit (tl s2); s3 = dropWhile is_digit (tl s2) in
      if c = [] \<or> \<not> prefix ''.'' s3 then None else
      let d = takeWhile is_digit (tl s3) in
      if d = [] then None else Some (a @ ''.'' @ b @ ''.'' @ c @ ''.'' @ d))"

text \<open>\<^verbatim>\<open>kw\s+(\d+\.\d+\.\d+\.\d+)\<close>.\<close>

definition match_kw_quad :: "string \<Rightarrow> string \<Rightarrow> string option" where
  "match_kw_quad kw s =
     (if prefix kw s then
        (let r = drop (length kw) s; ws = takeWhile is_space r
         in if ws \<noteq> [] then match_dotted_quad (dropWhile is_space r) else None)
      else None)"

section \<open>The duration parser\<close>

text \<open>
  \<^verbatim>\<open>_parse_time_to_seconds(self, time_str)\<close>.  \<open>None\<close> is a missing argument.  Each
  unit is searched for in the whole string, and the number in front of its first match is
  converted by \<^verbatim>\<open>int\<close> and added to the total.
\<close>

definition add_unit :: "char \<Rightarrow> int \<Rightarrow> string \<Rightarrow> int \<Rightarrow> error + int" where
  "add_unit u seconds time_str total_seconds =
     (case re_search (match_digits_unit u) time_str of
        None \<Rightarrow> Inr total_seconds
      | Some g \<Rightarrow> ebind (py_int g) (\<lambda>n. Inr (total_seconds + n * seconds)))"

definition parse_time_to_seconds :: "string option \<Rightarrow> error + int" where
  "parse_time_to_seconds time_str =
     (case time_str of
        None \<Rightarrow> Inr 0
      | Some s0 \<Rightarrow>
          if s0 = [] then Inr 0 else
          let s = rstrip_char CHR '','' s0 in
          ebind (add_unit CHR ''Y'' (365 * 24 * 3600) s 0) (\<lambda>t1.
          ebind (add_unit CHR ''D'' (24 * 3600) s t1) (\<lambda>t2.
          ebind (add_unit CHR ''h'' 3600 s t2) (\<lambda>t3.
          ebind (add_unit CHR ''m'' 60 s t3) (\<lambda>t4.
          add_unit CHR ''s'' 1 s t4)))))"

section \<open>Python numbers\<close>

text \<open>
  Python's \<^verbatim>\<open>int\<close> is unbounded and is modelled by \<open>int\<close>.  A \<^verbatim>\<open>float\<close> is an
  IEEE 754 binary64 number; a finite one is modelled by the rational number it stands
  for.  \<open>round53 q\<close> is the binary64 number nearest to the rational \<open>q\<close> (ties to the even
  significand, gradual underflow below \<open>2 ^ -1022\<close>, the exponent not bounded above), which
  is what an arithmetic operation returns for the exact result \<open>q\<close> unless it overflows.
  All floats the parser computes are non-negative, so \<open>pyfloat\<close> has the finite values and
  positive infinity only.
\<close>

definition pow2 :: "int \<Rightarrow> rat" where
  "pow2 e = (if 0 \<le> e then 2 ^ nat e else 1 / 2 ^ nat (- e))"

definition floor_log2 :: "rat \<Rightarrow> int" where
  "floor_log2 q =
     (let (a, b) = quotient_of q;
          e0 = bitlen a - bitlen b
      in if pow2 e0 \<le> q then e0 else e0 - 1)"

definition round_half_even :: "rat \<Rightarrow> int" where
  "round_half_even x =
     (let n = \<lfloor>x\<rfloor>; d = x - of_int n
      in if d < 1 / 2 then n else if 1 / 2 < d then n + 1
         else if even n then n else n + 1)"

definition round53 :: "rat \<Rightarrow> rat" where
  "round53 q =
     (if q = 0 then 0 else
      let a = \<bar>q\<bar>; e = max (floor_log2 a) (- 1022); ulp = pow2 (e - 52)
      in sgn q * of_int (round_half_even (a / ulp)) * ulp)"

datatype pyfloat = Finite rat | PInf

definition fl :: "rat \<Rightarrow> pyfloat" where
  "fl q = (let r = round53 q in if 2 ^ 1024 \<le> r then PInf else Finite r)"

definition int_true_div :: "int \<Rightarrow> int \<Rightarrow> error + pyfloat" where
  "int_true_div a b =
     (if b = 0 then Inl ZeroDivisionError else
      let r = round53 (of_int a / of_int b)
      in if 2 ^ 1024 \<le> \<bar>r\<bar> then Inl OverflowError else Inr (Finite r))"

definition fmul_int :: "pyfloat \<Rightarrow> int \<Rightarrow> pyfloat" where
  "fmul_int x k = (case x of Finite a \<Rightarrow> fl (a * of_int k) | PInf \<Rightarrow> PInf)"

definition fdiv_int :: "pyfloat \<Rightarrow> int \<Rightarrow> error + pyfloat" where
  "fdiv_int x k =
     (if k = 0 then Inl ZeroDivisionError
      else Inr (case x of Finite a \<Rightarrow> fl (a / of_int k) | PInf \<Rightarrow> PInf))"

definition fadd :: "pyfloat \<Rightarrow> pyfloat \<Rightarrow> pyfloat" where
  "fadd x y = (case (x, y) of (Finite a, Finite b) \<Rightarrow> fl (a + b) | _ \<Rightarrow> PInf)"

definition fge :: "pyfloat \<Rightarrow> rat \<Rightarrow> bool" where
  "fge x q = (case x of Finite a \<Rightarrow> q \<le> a | PInf \<Rightarrow> True)"

text \<open>
  \<^verbatim>\<open>a / b\<close> on two ints is correctly rounded, raises ZeroDivisionError for \<open>b = 0\<close>
  and OverflowError when the rounded quotient is outside the binary64 range.  The
  multiplication and division of a float by an int constant, and the addition of two
  floats, round the exact result and overflow to infinity.
\<close>

definition flt :: "pyfloat \<Rightarrow> pyfloat \<Rightarrow> bool" where
  "flt x y = (case (x, y) of (Finite a, Finite b) \<Rightarrow> a < b | (Finite a, PInf) \<Rightarrow> True | _ \<Rightarrow> False)"

definition fmax :: "pyfloat \<Rightarrow> pyfloat \<Rightarrow> pyfloat" where
  "fmax x y = (if flt x y then y else x)"

text \<open>A number a caller passes as a threshold: an int or a finite float.\<close>

datatype number = IntNum int | FloatNum rat

definition number_value :: "number \<Rightarrow> rat" where
  "number_value n = (case n of IntNum i \<Rightarrow> of_int i | FloatNum x \<Rightarrow> x)"

text \<open>The value of \<^verbatim>\<open>min_uptime_hours * 3600\<close>: exact for an int, rounded (and
  possibly infinite) for a float.\<close>

datatype bound = Bounded rat | Above | Below

definition times_3600 :: "number \<Rightarrow> bound" where
  "times_3600 n =
     (case n of
        IntNum i \<Rightarrow> Bounded (of_int (i * 3600))
      | FloatNum x \<Rightarrow>
          (let p = round53 (x * 3600)
           in if 2 ^ 1024 \<le> p then Above else if p \<le> - (2 ^ 1024) then Below else Bounded p))"

definition int_ge :: "int \<Rightarrow> bound \<Rightarrow> bool" where
  "int_ge i b = (case b of Bounded q \<Rightarrow> q \<le> of_int i | Above \<Rightarrow> False | Below \<Rightarrow> True)"

text \<open>\<^verbatim>\<open>xs[i]\<close>, and the unpacking \<^verbatim>\<open>a, b = xs\<close>.\<close>

definition item :: "'a list \<Rightarrow> nat \<Rightarrow> error + 'a" where
  "item xs i = (if i < length xs then Inr (xs ! i) else Inl IndexError)"

definition unpack2 :: "'a list \<Rightarrow> error + ('a \<times> 'a)" where
  "unpack2 xs = (case xs of [a, b] \<Rightarrow> Inr (a, b) | _ \<Rightarrow> Inl ValueError)"

section \<open>The rate calculator\<close>

record rate_info =
  bytes_per_second :: pyfloat
  bytes_per_minute :: pyfloat
  bytes_per_hour :: pyfloat
  mbps :: pyfloat
  rate_category :: string

text \<open>\<^verbatim>\<open>_calculate_traffic_rate(self, bytes_count, uptime_seconds)\<close>.  The int 0 of
  the first branch is the float 0; the float literal \<^verbatim>\<open>0.1\<close> is \<open>round53 (1 / 10)\<close>.\<close>

definition calculate_traffic_rate :: "int \<Rightarrow> int \<Rightarrow> error + rate_info" where
  "calculate_traffic_rate bytes_count uptime_seconds =
     (if uptime_seconds \<le> 0 then
        Inr \<lparr>bytes_per_second = Finite 0, bytes_per_minute = Finite 0, bytes_per_hour = Finite 0,
             mbps = Finite 0, rate_category = ''unknown''\<rparr>
      else
        ebind (int_true_div bytes_count uptime_seconds) (\<lambda>bps.
        let bpm = fmul_int bps 60;
            bph = fmul_int bps 3600
        in ebind (fdiv_int (fmul_int bps 8) (1024 * 1024)) (\<lambda>m.
        let category =
              (if fge m 1000 then ''extremely_high''
               else if fge m 100 then ''very_high''
               else if fge m 10 then ''high''
               else if fge m 1 then ''medium''
               else if fge m (round53 (1 / 10)) then ''low''
               else ''very_low'')
        in Inr \<lparr>bytes_per_second = bps, bytes_per_minute = bpm, bytes_per_hour = bph,
                mbps = m, rate_category = category\<rparr>)))"

section \<open>The flag decoder\<close>

record flag_info =
  raw_flags :: string
  has_elephant_flag :: bool
  elephant_flag_type :: "string option"
  is_offloaded :: bool
  is_snort_inspected :: bool
  snort_flags :: "(string \<times> string) list"
  tcp_state_flags :: "(string \<times> string) list"
  protocol_flags :: "(string \<times> string) list"
  special_flags :: "(string \<times> string) list"

text \<open>The three tables, in the order the dictionaries of the source list them (a Python
  dictionary iterates in insertion order).\<close>

definition snort_patterns :: "(string \<times> string) list" where
  "snort_patterns =
     [(''N1'', ''preserve-connection enabled''),
      (''N2'', ''preserve-connection in effect''),
      (''N3'', ''elephant-flow''),
      (''N4'', ''elephant-flow bypassed''),
      (''N5'', ''elephant-flow throttled''),
      (''N6'', ''elephant-flow exempted'')]"

definition tcp_flags :: "(string \<times> string) list" where
  "tcp_flags =
     [(''U'', ''up''), (''F'', ''initiator FIN''), (''f'', ''responder FIN''),
      (''R'', ''initiator acknowledged FIN''), (''r'', ''responder acknowledged FIN''),
      (''A'', ''awaiting responder ACK to SYN''), (''a'', ''awaiting initiator ACK to SYN''),
      (''I'', ''initiator data''), (''O'', ''responder data''), (''i'', ''incomplete'')]"

definition protocol_flags_table :: "(string \<times> string) list" where
  "protocol_flags_table =
     [(''T'', ''SIP''), (''t'', ''SIP transient''), (''H'', ''H.323''), (''h'', ''H.225.0''),
      (''M'', ''SMTP data''), (''m'', ''SIP media''), (''D'', ''DNS''), (''Q'', ''QUIC''),
      (''G'', ''group''), (''g'', ''MGCP''), (''J'', ''GTP''), (''j'', ''GTP data''),
      (''k'', ''Skinny media''), (''L'', ''decap tunnel''), (''q'', ''SQL*Net data''),
      (''B'', ''TCP probe for server certificate''), (''b'', ''TCP state-bypass or nailed''),
      (''C'', ''CTIQBE media''), (''c'', ''cluster centralized''), (''d'', ''dump''),
      (''E'', ''outside back connection''), (''e'', ''semi-distributed''),
      (''K'', ''GTP t3-response''), (''n'', ''GUP''), (''P'', ''inside back connection''),
      (''p'', ''passenger flow''), (''V'', ''VPN orphan''), (''v'', ''M3UA''),
      (''W'', ''WAAS''), (''w'', ''secondary domain backup''),
      (''X'', ''inspected by service module''), (''x'', ''per session''),
      (''Y'', ''director stub flow''), (''y'', ''backup stub flow''),
      (''Z'', ''Scansafe redirection''), (''z'', ''forwarding stub flow'')]"

text \<open>One round of each of the three loops over a table.\<close>

definition snort_step :: "string \<Rightarrow> flag_info \<Rightarrow> string \<times> string \<Rightarrow> flag_info" where
  "snort_step flags fi entry =
     (case entry of (pattern, description) \<Rightarrow>
        if contains pattern flags then
          (let fi1 = fi\<lparr>snort_flags := snort_flags fi @ [(pattern, description)],
                        is_snort_inspected := True\<rparr>
           in if pattern \<in> set [''N3'', ''N4'', ''N5'', ''N6'']
              then fi1\<lparr>has_elephant_flag := True, elephant_flag_type := Some pattern\<rparr>
              else fi1)
        else fi)"

definition tcp_step :: "string \<Rightarrow> flag_info \<Rightarrow> string \<times> string \<Rightarrow> flag_info" where
  "tcp_step flags fi entry =
     (case entry of (flag_char, description) \<Rightarrow>
        if contains flag_char flags
        then fi\<lparr>tcp_state_flags := tcp_state_flags fi @ [(flag_char, description)]\<rparr>
        else fi)"

definition protocol_step :: "string \<Rightarrow> flag_info \<Rightarrow> string \<times> string \<Rightarrow> flag_info" where
  "protocol_step flags fi entry =
     (case entry of (flag_char, description) \<Rightarrow>
        if contains flag_char flags
        then fi\<lparr>protocol_flags := protocol_flags fi @ [(flag_char, description)]\<rparr>
        else fi)"

text \<open>\<^verbatim>\<open>_parse_connection_flags(self, flags_str)\<close>.  The result \<open>None\<close> is the empty
  dictionary \<^verbatim>\<open>{}\<close> the source returns for a missing or empty argument.\<close>

definition parse_connection_flags :: "string option \<Rightarrow> flag_info option" where
  "parse_connection_flags flags_str =
     (case flags_str of
        None \<Rightarrow> None
      | Some s \<Rightarrow>
          if s = [] then None else
          let flags = strip (remove_all ''-'' s);
              fi0 = \<lparr>raw_flags = flags, has_elephant_flag = False, elephant_flag_type = None,
                     is_offloaded = False, is_snort_inspected = False, snort_flags = [],
                     tcp_state_flags = [], protocol_flags = [], special_flags = []\<rparr>;
              fi1 = foldl (snort_step flags) fi0 snort_patterns;
              fi2 = (if contains ''o'' flags
                     then fi1\<lparr>is_offloaded := True,
                              special_flags := special_flags fi1 @ [(''o'', ''offloaded'')]\<rparr>
                     else fi1);
              fi3 = foldl (tcp_step flags) fi2 tcp_flags;
              fi4 = foldl (protocol_step flags) fi3 protocol_flags_table;
              fi5 = (if contains ''Z1'' flags
                     then fi4\<lparr>special_flags := special_flags fi4 @ [(''Z1'', ''zero-trust flow'')]\<rparr>
                     else fi4)
          in Some fi5)"

text \<open>How the callers read the dictionary: \<^verbatim>\<open>flag_info.get(key, default)\<close> with the
  default the source gives (\<^verbatim>\<open>False\<close>, \<^verbatim>\<open>None\<close> or the empty list).\<close>

definition get_has_elephant_flag :: "flag_info option \<Rightarrow> bool" where
  "get_has_elephant_flag d = (case d of None \<Rightarrow> False | Some fi \<Rightarrow> has_elephant_flag fi)"

definition get_is_offloaded :: "flag_info option \<Rightarrow> bool" where
  "get_is_offloaded d = (case d of None \<Rightarrow> False | Some fi \<Rightarrow> is_offloaded fi)"

definition get_is_snort_inspected :: "flag_info option \<Rightarrow> bool" where
  "get_is_snort_inspected d = (case d of None \<Rightarrow> False | Some fi \<Rightarrow> is_snort_inspected fi)"

definition get_elephant_flag_type :: "flag_info option \<Rightarrow> string option" where
  "get_elephant_flag_type d = (case d of None \<Rightarrow> None | Some fi \<Rightarrow> elephant_flag_type fi)"

definition get_snort_flags :: "flag_info option \<Rightarrow> (string \<times> string) list" where
  "get_snort_flags d = (case d of None \<Rightarrow> [] | Some fi \<Rightarrow> snort_flags fi)"

definition get_tcp_state_flags :: "flag_info option \<Rightarrow> (string \<times> string) list" where
  "get_tcp_state_flags d = (case d of None \<Rightarrow> [] | Some fi \<Rightarrow> tcp_state_flags fi)"

definition get_protocol_flags :: "flag_info option \<Rightarrow> (string \<times> string) list" where
  "get_protocol_flags d = (case d of None \<Rightarrow> [] | Some fi \<Rightarrow> protocol_flags fi)"

definition get_special_flags :: "flag_info option \<Rightarrow> (string \<times> string) list" where
  "get_special_flags d = (case d of None \<Rightarrow> [] | Some fi \<Rightarrow> special_flags fi)"

section \<open>The record assembler\<close>

text \<open>
  A connection is a Python dictionary with string keys and string values; the keys the
  parser can set are the fields of \<open>conn\<close>, and \<open>None\<close> is a key that is absent.
\<close>

record conn =
  protocol :: "string option"
  src_interface :: "string option"
  src_ip :: "string option"
  src_port :: "string option"
  dst_interface :: "string option"
  dst_ip :: "string option"
  dst_port :: "string option"
  flags :: "string option"
  idle :: "string option"
  uptime :: "string option"
  timeout :: "string option"
  bytes :: "string option"
  rx_ring_num :: "string option"
  internal_data :: "string option"
  initiator_ip :: "string option"
  responder_ip :: "string option"
  keyid :: "string option"

definition empty_conn :: conn where
  "empty_conn =
     \<lparr>protocol = None, src_interface = None, src_ip = None, src_port = None,
      dst_interface = None, dst_ip = None, dst_port = None, flags = None, idle = None,
      uptime = None, timeout = None, bytes = None, rx_ring_num = None, internal_data = None,
      initiator_ip = None, responder_ip = None, keyid = None\<rparr>"

text \<open>\<^verbatim>\<open>d.update(info)\<close>: every key of \<open>info\<close> overwrites the key of \<open>d\<close>.\<close>

definition overwrite :: "'a option \<Rightarrow> 'a option \<Rightarrow> 'a option" where
  "overwrite old new = (case new of None \<Rightarrow> old | Some v \<Rightarrow> Some v)"

definition update_conn :: "conn \<Rightarrow> conn \<Rightarrow> conn" where
  "update_conn d info =
     \<lparr>protocol = overwrite (protocol d) (protocol info),
      src_interface = overwrite (src_interface d) (src_interface info),
      src_ip = overwrite (src_ip d) (src_ip info),
      src_port = overwrite (src_port d) (src_port info),
      dst_interface = overwrite (dst_interface d) (dst_interface info),
      dst_ip = overwrite (dst_ip d) (dst_ip info),
      dst_port = overwrite (dst_port d) (dst_port info),
      flags = overwrite (flags d) (flags info),
      idle = overwrite (idle d) (idle info),
      uptime = overwrite (uptime d) (uptime info),
      timeout = overwrite (timeout d) (timeout info),
      bytes = overwrite (bytes d) (bytes info),
      rx_ring_num = overwrite (rx_ring_num d) (rx_ring_num info),
      internal_data = overwrite (internal_data d) (internal_data info),
      initiator_ip = overwrite (initiator_ip d) (initiator_ip info),
      responder_ip = overwrite (responder_ip d) (responder_ip info),
      keyid = overwrite (keyid d) (keyid info)\<rparr>"

text \<open>
  \<^verbatim>\<open>_parse_connection_line(self, line)\<close>.  \<open>found_source connection part rest\<close> is
  the body of the \<^verbatim>\<open>if\<close> inside the loop, for \<open>part = parts[i]\<close> and
  \<open>rest = parts[i+1:]\<close>; \<open>scan_parts\<close> is the loop, which stops at the first \<open>i\<close> whose
  condition \<^verbatim>\<open>':' in part and '/' in parts[i+1] if i+1 < len(parts) else False\<close>
  holds.
\<close>

definition found_source :: "conn \<Rightarrow> string \<Rightarrow> string list \<Rightarrow> error + conn" where
  "found_source connection part rest =
     (let c1 = connection\<lparr>src_interface := Some (rstrip_char CHR '':'' part)\<rparr>;
          src_ip_port = rstrip_char CHR '','' (rest ! 0)
      in ebind (if contains ''/'' src_ip_port
                then ebind (unpack2 (split ''/'' src_ip_port))
                       (\<lambda>(a, b). Inr (c1\<lparr>src_ip := Some a, src_port := Some b\<rparr>))
                else Inr c1) (\<lambda>c2.
         let c3 = (if 2 \<le> length rest
                   then c2\<lparr>dst_interface := Some (rstrip_char CHR '':'' (rest ! 1))\<rparr>
                   else c2)
         in if 3 \<le> length rest then
              (let dst_ip_port = rstrip_char CHR '','' (rest ! 2)
               in if contains ''/'' dst_ip_port
                  then ebind (unpack2 (split ''/'' dst_ip_port))
                         (\<lambda>(a, b). Inr (c3\<lparr>dst_ip := Some a, dst_port := Some b\<rparr>))
                  else Inr c3)
            else Inr c3))"

fun scan_parts :: "conn \<Rightarrow> string list \<Rightarrow> error + conn" where
  "scan_parts connection [] = Inr connection"
| "scan_parts connection (part # rest) =
     (if (if rest \<noteq> [] then contains '':'' part \<and> contains ''/'' (rest ! 0) else False)
      then found_source connection part rest
      else scan_parts connection rest)"

definition parse_connection_line :: "string \<Rightarrow> error + conn" where
  "parse_connection_line line =
     (let parts = split_ws line
      in ebind (item parts 0) (\<lambda>p0. scan_parts (empty_conn\<lparr>protocol := Some p0\<rparr>) parts))"

text \<open>\<^verbatim>\<open>_parse_flags_line(self, line)\<close>: the dictionary \<open>info\<close> of the keys found.\<close>

definition parse_flags_line :: "string \<Rightarrow> error + conn" where
  "parse_flags_line line =
     ebind (if contains ''flags'' line
            then ebind (item (split ''flags'' line) 1) (\<lambda>after.
                 ebind (item (split '','' after) 0) (\<lambda>before_comma.
                 let flags_part = strip before_comma
                 in Inr (empty_conn\<lparr>flags := Some (remove_all ''-'' (remove_all ''- '' flags_part))\<rparr>)))
            else Inr empty_conn) (\<lambda>info.
     Inr (info\<lparr>idle := overwrite (idle info) (re_search (match_kw_token ''idle'') line),
               uptime := overwrite (uptime info) (re_search (match_kw_token ''uptime'') line),
               timeout := overwrite (timeout info) (re_search (match_kw_token ''timeout'') line),
               bytes := overwrite (bytes info) (re_search (match_kw_digits ''bytes'') line),
               rx_ring_num := overwrite (rx_ring_num info) (re_search (match_kw_digits ''Rx-RingNum'') line),
               internal_data := overwrite (internal_data info) (re_search match_internal_data line)\<rparr>))"

text \<open>\<^verbatim>\<open>_parse_initiator_responder(self, line)\<close>.\<close>

definition parse_initiator_responder :: "string \<Rightarrow> conn" where
  "parse_initiator_responder line =
     empty_conn\<lparr>initiator_ip := re_search (match_kw_quad ''Initiator:'') line,
                responder_ip := re_search (match_kw_quad ''Responder:'') line\<rparr>"

text \<open>
  \<^verbatim>\<open>parse_file_simple(self, filename)\<close>, as a function of the text of the file.  The
  file is read line by line with universal newlines; every line is stripped and an empty
  one skipped, so the lines are the pieces between the line feeds and carriage returns.
  The state of the loop is the list \<open>connections\<close> and the dictionary
  \<open>current_connection\<close>; an empty dictionary is false.
\<close>

fun lines_from :: "string \<Rightarrow> string \<Rightarrow> string list" where
  "lines_from cur [] = [rev cur]"
| "lines_from cur (c # cs) =
     (if c = CHR 0x0A \<or> c = CHR 0x0D then rev cur # lines_from [] cs
      else lines_from (c # cur) cs)"

definition file_lines :: "string \<Rightarrow> string list" where
  "file_lines text = lines_from [] text"

definition is_main_line :: "string \<Rightarrow> bool" where
  "is_main_line line = (prefix ''TCP'' line \<or> prefix ''UDP'' line \<or> prefix ''ICMP'' line)"

definition process_line :: "conn list \<times> conn \<Rightarrow> string \<Rightarrow> error + conn list \<times> conn" where
  "process_line state raw =
     (case state of (connections, current_connection) \<Rightarrow>
        let line = strip raw in
        if line = [] then Inr (connections, current_connection)
        else if is_main_line line then
          (let connections' = (if current_connection \<noteq> empty_conn
                               then connections @ [current_connection] else connections)
           in ebind (parse_connection_line line) (\<lambda>c. Inr (connections', c)))
        else if startswith line ''flags'' then
          ebind (parse_flags_line line) (\<lambda>flags_info.
            Inr (connections, update_conn current_connection flags_info))
        else if contains ''Initiator:'' line \<and> contains ''Responder:'' line then
          Inr (connections, update_conn current_connection (parse_initiator_responder line))
        else if contains ''Connection lookup keyid:'' line then
          Inr (connections, current_connection\<lparr>keyid := Some (strip (last (split '':'' line)))\<rparr>)
        else Inr (connections, current_connection))"

fun process_lines :: "conn list \<times> conn \<Rightarrow> string list \<Rightarrow> error + conn list \<times> conn" where
  "process_lines state [] = Inr state"
| "process_lines state (raw # rest) = ebind (process_line state raw) (\<lambda>state'. process_lines state' rest)"

definition parse_file_simple :: "string \<Rightarrow> error + conn list" where
  "parse_file_simple text =
     ebind (process_lines ([], empty_conn) (file_lines text)) (\<lambda>(connections, current_connection).
       Inr (if current_connection \<noteq> empty_conn then connections @ [current_connection]
            else connections))"

section \<open>The elephant flow classifier\<close>

text \<open>
  An elephant flow is the copy of a connection with the keys the classifier adds: the
  connection's own keys are \<open>connection\<close>, the keys of \<open>flag_info\<close> (none when it is the
  empty dictionary) are \<open>flag_keys\<close>, the keys of \<open>rate_info\<close> are \<open>rate_keys\<close>.
\<close>

record flow =
  connection :: conn
  uptime_seconds :: int
  uptime_hours :: pyfloat
  bytes_int :: int
  is_long_lived :: bool
  is_high_volume :: bool
  is_high_rate :: bool
  is_flagged_elephant :: bool
  is_offloaded_elephant :: bool
  flag_keys :: "flag_info option"
  rate_keys :: rate_info
  combined_score :: pyfloat
  elephant_flow_type :: string

text \<open>\<^verbatim>\<open>' + '.join(flow_types)\<close>.\<close>

fun join_plus :: "string list \<Rightarrow> string" where
  "join_plus [] = []"
| "join_plus [x] = x"
| "join_plus (x # y # ys) = x @ '' + '' @ join_plus (y # ys)"

text \<open>\<^verbatim>\<open>xs.sort(key=key, reverse=True)\<close>: the stable sort into descending order of the
  keys, elements with equal keys keeping their order.  \<open>lt\<close> is \<^verbatim>\<open><\<close> on the keys.\<close>

fun insert_desc :: "('k \<Rightarrow> 'k \<Rightarrow> bool) \<Rightarrow> ('a \<Rightarrow> 'k) \<Rightarrow> 'a \<Rightarrow> 'a list \<Rightarrow> 'a list" where
  "insert_desc lt key x [] = [x]"
| "insert_desc lt key x (y # ys) =
     (if lt (key x) (key y) then y # insert_desc lt key x ys else x # y # ys)"

definition sort_desc :: "('k \<Rightarrow> 'k \<Rightarrow> bool) \<Rightarrow> ('a \<Rightarrow> 'k) \<Rightarrow> 'a list \<Rightarrow> 'a list" where
  "sort_desc lt key xs = foldr (insert_desc lt key) xs []"

text \<open>The body of the loop of \<^verbatim>\<open>find_elephant_flows\<close> for one connection: the new
  elephant flow, or \<open>None\<close> when the connection does not qualify.\<close>

definition classify :: "number \<Rightarrow> number \<Rightarrow> number \<Rightarrow> bool \<Rightarrow> bool \<Rightarrow> conn \<Rightarrow> error + flow option" where
  "classify min_uptime_hours min_bytes min_mbps include_flagged include_offloaded c =
     (let min_uptime_seconds = times_3600 min_uptime_hours in
      ebind (case uptime c of None \<Rightarrow> Inr 0 | Some u \<Rightarrow> parse_time_to_seconds (Some u)) (\<lambda>uptime_seconds.
      ebind (case bytes c of None \<Rightarrow> Inr 0
             | Some b \<Rightarrow> if isdigit b then py_int b else Inr 0) (\<lambda>bytes_count.
      let flag_info = (case flags c of None \<Rightarrow> None | Some f \<Rightarrow> parse_connection_flags (Some f)) in
      ebind (calculate_traffic_rate bytes_count uptime_seconds) (\<lambda>rate_info.
      let long_lived = int_ge uptime_seconds min_uptime_seconds;
          high_volume = (number_value min_bytes \<le> of_int bytes_count);
          high_rate = fge (mbps rate_info) (number_value min_mbps);
          flagged_elephant = (get_has_elephant_flag flag_info \<and> include_flagged);
          offloaded_elephant = (get_is_offloaded flag_info \<and> include_offloaded);
          qualifies = (long_lived \<or> high_volume \<or> high_rate \<or> flagged_elephant \<or> offloaded_elephant)
      in if qualifies then
           ebind (int_true_div uptime_seconds 3600) (\<lambda>hours.
           ebind (int_true_div uptime_seconds 3600) (\<lambda>uptime_score.
           ebind (int_true_div bytes_count 1000000) (\<lambda>bytes_score.
           let rate_score = mbps rate_info;
               score = fadd (fadd uptime_score bytes_score) (fmul_int rate_score 10);
               flow_types =
                 (if long_lived then [''Long-lived''] else []) @
                 (if high_volume then [''High-volume''] else []) @
                 (if high_rate then [''High-rate''] else []) @
                 (if flagged_elephant then
                    [''Flagged-'' @ (case flag_info of None \<Rightarrow> ''N?''
                        | Some fi \<Rightarrow> (case elephant_flag_type fi of None \<Rightarrow> ''None'' | Some t \<Rightarrow> t))]
                  else []) @
                 (if offloaded_elephant then [''Offloaded''] else [])
           in Inr (Some \<lparr>connection = c, uptime_seconds = uptime_seconds, uptime_hours = hours,
                          bytes_int = bytes_count, is_long_lived = long_lived,
                          is_high_volume = high_volume, is_high_rate = high_rate,
                          is_flagged_elephant = flagged_elephant,
                          is_offloaded_elephant = offloaded_elephant,
                          flag_keys = flag_info, rate_keys = rate_info,
                          combined_score = score,
                          elephant_flow_type = join_plus flow_types\<rparr>))))
         else Inr None))))"

fun classify_all :: "number \<Rightarrow> number \<Rightarrow> number \<Rightarrow> bool \<Rightarrow> bool \<Rightarrow> conn list \<Rightarrow> error + flow list" where
  "classify_all hours nbytes rate flagged offloaded [] = Inr []"
| "classify_all hours nbytes rate flagged offloaded (c # cs) =
     ebind (classify hours nbytes rate flagged offloaded c) (\<lambda>r.
     ebind (classify_all hours nbytes rate flagged offloaded cs) (\<lambda>rs.
       Inr (case r of None \<Rightarrow> rs | Some e \<Rightarrow> e # rs)))"

text \<open>\<^verbatim>\<open>find_elephant_flows(self, min_uptime_hours, min_bytes, min_mbps, sort_by,
  include_flagged, include_offloaded)\<close>; \<open>connections\<close> is \<^verbatim>\<open>self.connections\<close>.\<close>

definition find_elephant_flows ::
  "conn list \<Rightarrow> number \<Rightarrow> number \<Rightarrow> number \<Rightarrow> string \<Rightarrow> bool \<Rightarrow> bool \<Rightarrow> error + flow list" where
  "find_elephant_flows connections min_uptime_hours min_bytes min_mbps sort_by
       include_flagged include_offloaded =
     (if connections = [] then Inr [] else
      ebind (classify_all min_uptime_hours min_bytes min_mbps include_flagged include_offloaded
               connections) (\<lambda>elephant_flows.
      Inr (if sort_by = ''uptime'' then sort_desc (<) uptime_seconds elephant_flows
           else if sort_by = ''bytes'' then sort_desc (<) bytes_int elephant_flows
           else if sort_by = ''rate'' then sort_desc flt (\<lambda>x. mbps (rate_keys x)) elephant_flows
           else if sort_by = ''both'' then sort_desc flt combined_score elephant_flows
           else sort_desc (<) bytes_int elephant_flows)))"

section \<open>The statistics aggregator\<close>

record flow_stats =
  total_elephant_flows :: nat
  percentage_of_total :: pyfloat
  long_lived_only :: nat
  high_volume_only :: nat
  both_criteria :: nat
  total_bytes_elephant :: int
  avg_uptime_hours :: pyfloat
  avg_bytes :: pyfloat
  max_uptime_hours :: pyfloat
  max_bytes :: int
  protocols :: "string option multiset"
  top_source_ips :: "string option multiset"
  top_dest_ips :: "string option multiset"

text \<open>\<^verbatim>\<open>sum\<close> and \<^verbatim>\<open>max\<close> over floats, from the left.\<close>

definition fsum :: "pyfloat list \<Rightarrow> pyfloat" where
  "fsum xs = foldl fadd (Finite 0) xs"

definition fmax_list :: "pyfloat list \<Rightarrow> pyfloat" where
  "fmax_list xs = foldl fmax (hd xs) (tl xs)"

text \<open>
  \<^verbatim>\<open>get_elephant_flow_stats(self, elephant_flows)\<close>; \<open>connections\<close> is
  \<^verbatim>\<open>self.connections\<close>.  The result \<open>None\<close> is the empty dictionary the source returns
  for an empty list.  The entries of the dictionary are computed in the order of the
  source, so the first operation that raises decides the exception.
\<close>

definition get_elephant_flow_stats :: "conn list \<Rightarrow> flow list \<Rightarrow> error + flow_stats option" where
  "get_elephant_flow_stats connections elephant_flows =
     (if elephant_flows = [] then Inr None else
      ebind (int_true_div (int (length elephant_flows)) (int (length connections))) (\<lambda>share.
      let percentage = fmul_int share 100;
          total_bytes = sum_list (map bytes_int elephant_flows) in
      ebind (fdiv_int (fsum (map uptime_hours elephant_flows)) (int (length elephant_flows))) (\<lambda>avg_hours.
      ebind (int_true_div total_bytes (int (length elephant_flows))) (\<lambda>avg_b.
      Inr (Some
        \<lparr>total_elephant_flows = length elephant_flows,
         percentage_of_total = percentage,
         long_lived_only = length (filter (\<lambda>f. is_long_lived f \<and> \<not> is_high_volume f) elephant_flows),
         high_volume_only = length (filter (\<lambda>f. is_high_volume f \<and> \<not> is_long_lived f) elephant_flows),
         both_criteria = length (filter (\<lambda>f. is_long_lived f \<and> is_high_volume f) elephant_flows),
         total_bytes_elephant = total_bytes,
         avg_uptime_hours = avg_hours,
         avg_bytes = avg_b,
         max_uptime_hours = fmax_list (map uptime_hours elephant_flows),
         max_bytes = Max (set (map bytes_int elephant_flows)),
         protocols = mset (map (\<lambda>f. protocol (connection f)) elephant_flows),
         top_source_ips = mset (map (\<lambda>f. src_ip (connection f)) elephant_flows),
         top_dest_ips = mset (map (\<lambda>f. dst_ip (connection f)) elephant_flows)\<rparr>)))))"

text \<open>\<^verbatim>\<open>stats[key]\<close>, as the callers read a statistics dictionary: KeyError on the
  empty dictionary, which has no key.\<close>

definition subscript :: "'r option \<Rightarrow> ('r \<Rightarrow> 'a) \<Rightarrow> error + 'a" where
  "subscript d key = (case d of None \<Rightarrow> Inl KeyError | Some r \<Rightarrow> Inr (key r))"

record byte_statistics =
  total_bytes :: int
  bs_max_bytes :: int
  min_bytes :: int
  bs_avg_bytes :: pyfloat

record connection_stats =
  total_connections :: nat
  cs_protocols :: "string multiset"
  source_interfaces :: "string multiset"
  destination_interfaces :: "string multiset"
  cs_top_source_ips :: "string multiset"
  top_destination_ips :: "string multiset"
  top_ports :: "string multiset"
  flags_summary :: "string multiset"
  byte_stats :: byte_statistics

text \<open>\<^verbatim>\<open>Counter\<close> of the values of one key over the connections that have it.\<close>

definition count_key :: "(conn \<Rightarrow> string option) \<Rightarrow> conn list \<Rightarrow> string multiset" where
  "count_key k cs = mset (map the (filter (\<lambda>v. v \<noteq> None) (map k cs)))"

definition byte_values_of :: "conn list \<Rightarrow> int list" where
  "byte_values_of cs =
     map digits_value (filter isdigit (map the (filter (\<lambda>v. v \<noteq> None) (map bytes cs))))"

text \<open>
  The parser object: \<^verbatim>\<open>self.connections\<close> and \<^verbatim>\<open>self.stats\<close> (\<open>None\<close> is the empty
  dictionary it starts with).  \<^verbatim>\<open>analyze_connections(self)\<close> returns the statistics
  (\<open>None\<close> is Python's \<^verbatim>\<open>None\<close>) and the object after the call.
\<close>

record connection_parser =
  connections :: "conn list"
  stats :: "connection_stats option"

definition analyze_connections ::
  "connection_parser \<Rightarrow> error + connection_stats option \<times> connection_parser" where
  "analyze_connections self =
     (if connections self = [] then Inr (None, self) else
      let cs = connections self;
          byte_values = byte_values_of cs
      in ebind (if byte_values \<noteq> []
                then ebind (int_true_div (sum_list byte_values) (int (length byte_values))) (\<lambda>avg.
                       Inr \<lparr>total_bytes = sum_list byte_values, bs_max_bytes = Max (set (0 # byte_values)),
                            min_bytes = Min (set byte_values), bs_avg_bytes = avg\<rparr>)
                else Inr \<lparr>total_bytes = 0, bs_max_bytes = 0, min_bytes = 0, bs_avg_bytes = Finite 0\<rparr>) (\<lambda>bs.
         let st = \<lparr>total_connections = length cs,
                   cs_protocols = count_key protocol cs,
                   source_interfaces = count_key src_interface cs,
                   destination_interfaces = count_key dst_interface cs,
                   cs_top_source_ips = count_key src_ip cs,
                   top_destination_ips = count_key dst_ip cs,
                   top_ports = count_key dst_port cs,
                   flags_summary = count_key flags cs,
                   byte_stats = bs\<rparr>
         in Inr (Some st, self\<lparr>stats := Some st\<rparr>)))"

section \<open>Notions the code is compared with\<close>

subsection \<open>Durations\<close>









subsection \<open>Flag codes\<close>

text \<open>
  \<open>cleaned s\<close> is the flag string after the decoder's clean-up.  \<open>last_code_in codes t\<close> is
  the last code of the list \<open>codes\<close>, in the order of the list, that is a substring of \<open>t\<close>.
\<close>

definition cleaned :: "string \<Rightarrow> string" where
  "cleaned s = strip (remove_all ''-'' s)"

definition elephant_codes :: "string list" where
  "elephant_codes = [''N3'', ''N4'', ''N5'', ''N6'']"

definition snort_codes :: "string list" where
  "snort_codes = [''N1'', ''N2'', ''N3'', ''N4'', ''N5'', ''N6'']"

definition last_code_in :: "string list \<Rightarrow> string \<Rightarrow> string option" where
  "last_code_in codes s =
     (case filter (\<lambda>c. sublist c s) codes of [] \<Rightarrow> None | x # xs \<Rightarrow> Some (last (x # xs)))"

definition is_elephant_entry :: "string \<Rightarrow> string \<times> string \<Rightarrow> bool" where
  "is_elephant_entry fs e = (contains (fst e) fs \<and> fst e \<in> set [''N3'', ''N4'', ''N5'', ''N6''])"

subsection \<open>Rates\<close>

text \<open>
  \<open>zero_rate\<close> is the result for a connection without uptime.  \<open>category_bands m c\<close> says that
  \<open>c\<close> is the category of the rate \<open>m\<close>: each category is the band between two thresholds,
  the lowest threshold being the float \<^verbatim>\<open>0.1\<close>.
\<close>

definition zero_rate :: rate_info where
  "zero_rate = \<lparr>bytes_per_second = Finite 0, bytes_per_minute = Finite 0, bytes_per_hour = Finite 0,
                 mbps = Finite 0, rate_category = ''unknown''\<rparr>"

definition category_bands :: "pyfloat \<Rightarrow> string \<Rightarrow> bool" where
  "category_bands m c =
     ((c = ''extremely_high'') = fge m 1000 \<and>
      (c = ''very_high'') = (fge m 100 \<and> \<not> fge m 1000) \<and>
      (c = ''high'') = (fge m 10 \<and> \<not> fge m 100) \<and>
      (c = ''medium'') = (fge m 1 \<and> \<not> fge m 10) \<and>
      (c = ''low'') = (fge m (round53 (1 / 10)) \<and> \<not> fge m 1) \<and>
      (c = ''very_low'') = (\<not> fge m (round53 (1 / 10))))"

section \<open>Properties of the duration parser\<close>

lemma ebind_simps [simp]:
  "ebind (Inl e) f = Inl e" "ebind (Inr x) f = f x"
  by (simp_all add: ebind_def)















lemma unit_not_digit: "u \<in> set ''YDhms'' \<Longrightarrow> \<not> is_digit u"
  by (auto simp: is_digit_def)












section \<open>Properties of the float operations\<close>

lemma pow2_powi: "pow2 e = 2 powi e"
  by (simp add: pow2_def power_int_def power_one_over)

lemma pow2_pos: "0 < pow2 e"
  by (simp add: pow2_powi)

lemma floor_log2_lower:
  assumes "0 < q"
  shows "pow2 (floor_log2 q) \<le> q"
proof -
  obtain a b where ab: "quotient_of q = (a, b)" by (cases "quotient_of q")
  have b: "0 < b" using ab by (rule quotient_of_denom_pos)
  have q: "q = of_int a / of_int b" using ab by (rule quotient_of_div)
  have a: "0 < a" using assms b unfolding q by (simp add: zero_less_divide_iff)
  let ?e0 = "bitlen a - bitlen b"
  show ?thesis
  proof (cases "pow2 ?e0 \<le> q")
    case True
    then show ?thesis by (simp add: floor_log2_def ab)
  next
    case False
    have la: "(2::int) ^ nat (bitlen a - 1) \<le> a" and lb: "b < 2 ^ nat (bitlen b)"
      using bitlen_bounds [OF a] bitlen_bounds [OF b] by auto
    have la1: "1 \<le> bitlen a" using a by (simp add: bitlen_alt_def)
    have lb0: "0 \<le> bitlen b" by (rule bitlen_nonneg)
    have "(2::rat) powi (bitlen a - 1) = of_int (2 ^ nat (bitlen a - 1))"
      using la1 by (simp add: power_int_def)
    also have "\<dots> \<le> of_int a" using la by (simp only: of_int_le_iff)
    finally have A: "(2::rat) powi (bitlen a - 1) \<le> of_int a" .
    have "(of_int b :: rat) \<le> of_int (2 ^ nat (bitlen b))" using less_imp_le [OF lb] by (simp only: of_int_le_iff)
    also have "\<dots> = 2 powi (bitlen b)" using lb0 by (simp add: power_int_def)
    finally have B: "(of_int b :: rat) \<le> 2 powi (bitlen b)" .
    have "(2::rat) powi (?e0 - 1) = 2 powi (bitlen a - 1) / 2 powi (bitlen b)"
      by (simp add: power_int_diff)
    also have "\<dots> \<le> of_int a / 2 powi (bitlen b)"
      using A by (simp add: divide_right_mono)
    also have "\<dots> \<le> of_int a / of_int b"
      using B a b by (intro divide_left_mono) simp_all
    finally have "pow2 (?e0 - 1) \<le> q" by (simp add: pow2_powi q)
    with False show ?thesis by (simp add: floor_log2_def ab)
  qed
qed

lemma round_half_even_upper: "of_int (round_half_even x) \<le> x + 1 / 2"
proof -
  have 1: "of_int \<lfloor>x\<rfloor> \<le> x" by simp
  have 2: "x < of_int \<lfloor>x\<rfloor> + 1" by linarith
  consider "x - of_int \<lfloor>x\<rfloor> < 1 / 2" | "1 / 2 < x - of_int \<lfloor>x\<rfloor>"
    | "x - of_int \<lfloor>x\<rfloor> = 1 / 2" by linarith
  then show ?thesis
  proof cases
    case 1
    then have "round_half_even x = \<lfloor>x\<rfloor>" by (simp add: round_half_even_def Let_def)
    with 1 show ?thesis using \<open>of_int \<lfloor>x\<rfloor> \<le> x\<close> by linarith
  next
    case 2
    then have "round_half_even x = \<lfloor>x\<rfloor> + 1" by (simp add: round_half_even_def Let_def)
    with 2 show ?thesis by simp
  next
    case 3
    then have "round_half_even x = \<lfloor>x\<rfloor> \<or> round_half_even x = \<lfloor>x\<rfloor> + 1"
      by (simp add: round_half_even_def Let_def)
    with 3 show ?thesis by auto
  qed
qed

lemma round_half_even_nonneg: "0 \<le> x \<Longrightarrow> 0 \<le> round_half_even x"
  by (auto simp: round_half_even_def Let_def)

lemma round53_nonneg: "0 \<le> q \<Longrightarrow> 0 \<le> round53 q"
  by (auto simp: round53_def Let_def pow2_pos less_imp_le round_half_even_nonneg
      intro!: mult_nonneg_nonneg divide_nonneg_pos)

lemma round53_upper:
  assumes "0 < q"
  shows "round53 q \<le> q + pow2 (max (floor_log2 q) (- 1022) - 53)"
proof -
  let ?e = "max (floor_log2 q) (- 1022)"
  let ?ulp = "pow2 (?e - 52)"
  have ulp: "0 < ?ulp" by (rule pow2_pos)
  have r: "round53 q = of_int (round_half_even (q / ?ulp)) * ?ulp"
    using assms by (simp add: round53_def Let_def)
  have "of_int (round_half_even (q / ?ulp)) * ?ulp \<le> (q / ?ulp + 1 / 2) * ?ulp"
    using round_half_even_upper [of "q / ?ulp"] ulp by (simp only: mult_le_cancel_right_pos)
  also have "\<dots> = q + ?ulp / 2" using ulp by (simp add: field_simps)
  also have "?ulp / 2 = pow2 (?e - 53)"
    by (simp add: pow2_powi power_int_diff)
  finally show ?thesis by (simp add: r)
qed

lemma round53_in_range:
  assumes "0 \<le> q" "q < 2 ^ 1023"
  shows "round53 q < 2 ^ 1024"
proof (cases "q = 0")
  case True
  then show ?thesis by (simp add: round53_def)
next
  case False
  with assms have q: "0 < q" by simp
  let ?f = "floor_log2 q"
  have half: "pow2 (max ?f (- 1022) - 53) \<le> max q 1"
  proof (cases "- 1022 \<le> ?f")
    case True
    have "pow2 (?f - 53) \<le> pow2 ?f"
      by (simp add: pow2_powi power_int_diff field_simps)
    also have "\<dots> \<le> q" by (rule floor_log2_lower [OF q])
    finally show ?thesis using True by (simp add: max_def)
  next
    case False
    have "pow2 (- 1022 - 53) \<le> 1" by (simp add: pow2_def)
    with False show ?thesis by (simp add: max_def)
  qed
  have "round53 q \<le> q + max q 1" using round53_upper [OF q] half by linarith
  also have "\<dots> < 2 ^ 1023 + 2 ^ 1023" using assms by (simp add: max_def)
  finally show ?thesis by simp
qed

lemma int_true_div_in_range:
  assumes "0 \<le> a" "0 < b" "a < 2 ^ 1023"
  shows "int_true_div a b = Inr (Finite (round53 (of_int a / of_int b)))"
proof -
  have b1: "(1::rat) \<le> of_int b" using assms(2) by simp
  have a0: "(0::rat) \<le> of_int a" using assms(1) by simp
  have q0: "(0::rat) \<le> of_int a / of_int b" using assms by simp
  have "(of_int a / of_int b :: rat) \<le> of_int a / 1"
    using a0 b1 by (intro divide_left_mono) simp_all
  also have "(of_int a :: rat) < of_int (2 ^ 1023)" using assms(3) by (simp only: of_int_less_iff)
  finally have q1: "(of_int a / of_int b :: rat) < 2 ^ 1023" by simp
  have "\<bar>round53 (of_int a / of_int b)\<bar> = round53 (of_int a / of_int b)"
    using round53_nonneg [OF q0] by simp
  then show ?thesis
    using assms round53_in_range [OF q0 q1] by (simp add: int_true_div_def Let_def)
qed

lemma floor_log2_upper:
  assumes "0 < q"
  shows "q < pow2 (floor_log2 q + 1)"
proof -
  obtain a b where ab: "quotient_of q = (a, b)" by (cases "quotient_of q")
  have b: "0 < b" using ab by (rule quotient_of_denom_pos)
  have q: "q = of_int a / of_int b" using ab by (rule quotient_of_div)
  have a: "0 < a" using assms b unfolding q by (simp add: zero_less_divide_iff)
  let ?e0 = "bitlen a - bitlen b"
  show ?thesis
  proof (cases "pow2 ?e0 \<le> q")
    case False
    then show ?thesis by (simp add: floor_log2_def ab)
  next
    case True
    have la: "a < 2 ^ nat (bitlen a)" and lb: "(2::int) ^ nat (bitlen b - 1) \<le> b"
      using bitlen_bounds [OF a] bitlen_bounds [OF b] by auto
    have la0: "0 \<le> bitlen a" by (rule bitlen_nonneg)
    have lb1: "1 \<le> bitlen b" using b by (simp add: bitlen_alt_def)
    have "(of_int a :: rat) < of_int (2 ^ nat (bitlen a))" using la by (simp only: of_int_less_iff)
    also have "\<dots> = 2 powi (bitlen a)" using la0 by (simp add: power_int_def)
    finally have A: "(of_int a :: rat) < 2 powi (bitlen a)" .
    have "(2::rat) powi (bitlen b - 1) = of_int (2 ^ nat (bitlen b - 1))"
      using lb1 by (simp add: power_int_def)
    also have "\<dots> \<le> of_int b" using lb by (simp only: of_int_le_iff)
    finally have B: "(2::rat) powi (bitlen b - 1) \<le> of_int b" .
    have pb: "(0::rat) < 2 powi (bitlen b - 1)" by simp
    have "of_int a / of_int b < 2 powi (bitlen a) / (of_int b :: rat)"
      using A b by (simp add: divide_strict_right_mono)
    also have "\<dots> \<le> 2 powi (bitlen a) / 2 powi (bitlen b - 1)"
      using B pb b by (intro divide_left_mono) simp_all
    also have "\<dots> = 2 powi (?e0 + 1)"
      by (simp add: power_int_diff power_int_add)
    finally have "q < pow2 (?e0 + 1)" by (simp add: pow2_powi q)
    with True show ?thesis by (simp add: floor_log2_def ab)
  qed
qed

lemma pow2_less_iff: "pow2 e < pow2 f \<longleftrightarrow> e < f"
proof
  assume "e < f"
  then show "pow2 e < pow2 f"
    unfolding pow2_powi by (intro power_int_strict_increasing) simp_all
next
  assume l: "pow2 e < pow2 f"
  show "e < f"
  proof (rule ccontr)
    assume "\<not> e < f"
    then have "f \<le> e" by simp
    then have "pow2 f \<le> pow2 e"
      unfolding pow2_powi by (intro power_int_increasing) simp_all
    with l show False by simp
  qed
qed

lemma floor_log2_eqI:
  assumes "pow2 e \<le> q" "q < pow2 (e + 1)"
  shows "floor_log2 q = e"
proof -
  have q: "0 < q" using assms(1) pow2_pos [of e] by linarith
  have "pow2 e < pow2 (floor_log2 q + 1)"
    using assms(1) floor_log2_upper [OF q] by linarith
  moreover have "pow2 (floor_log2 q) < pow2 (e + 1)"
    using assms(2) floor_log2_lower [OF q] by linarith
  ultimately show ?thesis by (simp add: pow2_less_iff)
qed

lemma round_half_even_eqI:
  assumes "of_int n - 1 / 2 < x" "x < of_int n + 1 / 2"
  shows "round_half_even x = n"
proof -
  have 1: "of_int \<lfloor>x\<rfloor> \<le> x" by simp
  have 2: "x < of_int \<lfloor>x\<rfloor> + 1" by linarith
  have "of_int n < of_int \<lfloor>x\<rfloor> + (3 / 2 :: rat)" using assms(1) 2 by linarith
  then have "(of_int n :: rat) < of_int (\<lfloor>x\<rfloor> + 2)" by simp
  then have a: "n < \<lfloor>x\<rfloor> + 2" by (simp only: of_int_less_iff)
  have "of_int \<lfloor>x\<rfloor> < of_int n + (1 / 2 :: rat)" using assms(2) 1 by linarith
  then have "(of_int \<lfloor>x\<rfloor> :: rat) < of_int (n + 1)" by simp
  then have b: "\<lfloor>x\<rfloor> < n + 1" by (simp only: of_int_less_iff)
  from a b consider "n = \<lfloor>x\<rfloor>" | "n = \<lfloor>x\<rfloor> + 1" by linarith
  then show ?thesis
  proof cases
    case 1
    then have "x - of_int \<lfloor>x\<rfloor> < 1 / 2" using assms(2) by simp
    then show ?thesis using 1 by (simp add: round_half_even_def Let_def)
  next
    case 2
    then have "1 / 2 < x - of_int \<lfloor>x\<rfloor>" using assms(1) by simp
    then show ?thesis using 2 by (simp add: round_half_even_def Let_def)
  qed
qed

lemma round53_eqI:
  assumes "pow2 e \<le> q" "q < pow2 (e + 1)" "- 1022 \<le> e"
    and "(of_int n - 1 / 2) * pow2 (e - 52) < q" "q < (of_int n + 1 / 2) * pow2 (e - 52)"
  shows "round53 q = of_int n * pow2 (e - 52)"
proof -
  have q: "0 < q" using assms(1) pow2_pos [of e] by linarith
  have fl: "floor_log2 q = e" using assms(1,2) by (rule floor_log2_eqI)
  have ulp: "0 < pow2 (e - 52)" by (rule pow2_pos)
  have "round_half_even (q / pow2 (e - 52)) = n"
    using assms(4,5) ulp by (intro round_half_even_eqI) (simp_all add: field_simps)
  moreover have "max (floor_log2 q) (- 1022) = e" using assms(3) fl by simp
  ultimately show ?thesis using q unfolding round53_def Let_def by simp
qed

lemma round53_sample_quotient: "round53 (7688943400093 / 33696000) = 3920199482929069 / 17179869184"
  by (subst round53_eqI [where e = 17 and n = 7840398965858138]) (simp_all add: pow2_def)

lemma round53_two_power_1024: "round53 (2 ^ 1024) = 2 ^ 1024"
  by (subst round53_eqI [where e = 1024 and n = "2 ^ 52"]) (simp_all add: pow2_def)

lemma round53_ten_power_309: "2 ^ 1024 \<le> round53 (10 ^ 309)"
  by (subst round53_eqI [where e = 1026 and n = 6263026125028040]) (simp_all add: pow2_def)

section \<open>Properties of the flag decoder\<close>

lemma contains_iff_sublist: "contains sub s \<longleftrightarrow> sublist sub s"
  by (induction s) (auto simp: sublist_Cons_right)

lemma snort_step_frame:
  "raw_flags (snort_step fs fi e) = raw_flags fi"
  "is_offloaded (snort_step fs fi e) = is_offloaded fi"
  "tcp_state_flags (snort_step fs fi e) = tcp_state_flags fi"
  "protocol_flags (snort_step fs fi e) = protocol_flags fi"
  "special_flags (snort_step fs fi e) = special_flags fi"
  by (auto simp: snort_step_def Let_def split: prod.splits)

lemma case_snoc_last:
  "(case xs @ [e] of [] \<Rightarrow> a | x # ys \<Rightarrow> g (last (x # ys))) = g e"
  by (cases xs) auto

lemma snort_step_fields:
  "snort_flags (snort_step fs r e) =
     (if contains (fst e) fs then snort_flags r @ [e] else snort_flags r)"
  "is_snort_inspected (snort_step fs r e) = (is_snort_inspected r \<or> contains (fst e) fs)"
  "has_elephant_flag (snort_step fs r e) = (has_elephant_flag r \<or> is_elephant_entry fs e)"
  "elephant_flag_type (snort_step fs r e) =
     (if is_elephant_entry fs e then Some (fst e) else elephant_flag_type r)"
  by (cases e; simp add: snort_step_def Let_def is_elephant_entry_def)+

lemma snort_loop_flags:
  "snort_flags (foldl (snort_step fs) fi ps) =
     snort_flags fi @ filter (\<lambda>e. contains (fst e) fs) ps"
  by (induction ps rule: rev_induct) (simp_all add: snort_step_fields)

lemma snort_loop_inspected:
  "is_snort_inspected (foldl (snort_step fs) fi ps) =
     (is_snort_inspected fi \<or> list_ex (\<lambda>e. contains (fst e) fs) ps)"
  by (induction ps rule: rev_induct) (simp_all add: snort_step_fields)

lemma snort_loop_has_elephant:
  "has_elephant_flag (foldl (snort_step fs) fi ps) =
     (has_elephant_flag fi \<or> list_ex (is_elephant_entry fs) ps)"
  by (induction ps rule: rev_induct) (simp_all add: snort_step_fields)

lemma snort_loop_type:
  "elephant_flag_type (foldl (snort_step fs) fi ps) =
     (case filter (is_elephant_entry fs) ps of
        [] \<Rightarrow> elephant_flag_type fi | x # xs \<Rightarrow> Some (fst (last (x # xs))))"
proof (induction ps rule: rev_induct)
  case Nil
  show ?case by simp
next
  case (snoc e ps)
  show ?case
  proof (cases "is_elephant_entry fs e")
    case True
    then show ?thesis
      using case_snoc_last [where xs = "filter (is_elephant_entry fs) ps" and e = e
          and a = "elephant_flag_type fi" and g = "\<lambda>x. Some (fst x)"]
      by (simp add: snort_step_fields)
  next
    case False
    then show ?thesis using snoc by (simp add: snort_step_fields)
  qed
qed

lemmas snort_loop = snort_loop_flags snort_loop_inspected snort_loop_has_elephant snort_loop_type

lemma tcp_loop_frame:
  "snort_flags (foldl (tcp_step fs) fi ps) = snort_flags fi \<and>
   is_snort_inspected (foldl (tcp_step fs) fi ps) = is_snort_inspected fi \<and>
   has_elephant_flag (foldl (tcp_step fs) fi ps) = has_elephant_flag fi \<and>
   elephant_flag_type (foldl (tcp_step fs) fi ps) = elephant_flag_type fi"
  by (induction ps arbitrary: fi) (auto simp: tcp_step_def split: prod.splits)

lemma protocol_loop_frame:
  "snort_flags (foldl (protocol_step fs) fi ps) = snort_flags fi \<and>
   is_snort_inspected (foldl (protocol_step fs) fi ps) = is_snort_inspected fi \<and>
   has_elephant_flag (foldl (protocol_step fs) fi ps) = has_elephant_flag fi \<and>
   elephant_flag_type (foldl (protocol_step fs) fi ps) = elephant_flag_type fi"
  by (induction ps arbitrary: fi) (auto simp: protocol_step_def split: prod.splits)

lemma parse_connection_flags_snort:
  assumes "s \<noteq> []"
  shows "\<exists>fi. parse_connection_flags (Some s) = Some fi \<and>
     snort_flags fi = filter (\<lambda>e. contains (fst e) (cleaned s)) snort_patterns \<and>
     is_snort_inspected fi = list_ex (\<lambda>e. contains (fst e) (cleaned s)) snort_patterns \<and>
     has_elephant_flag fi = list_ex (is_elephant_entry (cleaned s)) snort_patterns \<and>
     elephant_flag_type fi =
       (case filter (is_elephant_entry (cleaned s)) snort_patterns of
          [] \<Rightarrow> None | x # xs \<Rightarrow> Some (fst (last (x # xs))))"
  using assms
  by (simp add: parse_connection_flags_def Let_def cleaned_def
      tcp_loop_frame protocol_loop_frame snort_loop split: list.splits)

lemma sublist_code_empty: "xs \<noteq> [] \<Longrightarrow> \<not> sublist xs []"
  by simp

lemma elephant_entries_codes:
  "map fst (filter (is_elephant_entry t) snort_patterns) = filter (\<lambda>c. sublist c t) elephant_codes"
  by (simp add: snort_patterns_def elephant_codes_def is_elephant_entry_def contains_iff_sublist)

lemma last_entry_code:
  "(case filter (is_elephant_entry t) snort_patterns of
      [] \<Rightarrow> None | x # xs \<Rightarrow> Some (fst (last (x # xs)))) = last_code_in elephant_codes t"
proof -
  let ?es = "filter (is_elephant_entry t) snort_patterns"
  have m: "filter (\<lambda>c. sublist c t) elephant_codes = map fst ?es"
    by (simp only: elephant_entries_codes)
  show ?thesis
  proof (cases ?es)
    case Nil
    then show ?thesis unfolding last_code_in_def m by simp
  next
    case (Cons x xs)
    then show ?thesis unfolding last_code_in_def m by (simp add: last_map)
  qed
qed

lemma list_ex_elephant:
  "list_ex (is_elephant_entry t) snort_patterns = list_ex (\<lambda>c. sublist c t) elephant_codes"
  by (simp add: snort_patterns_def elephant_codes_def is_elephant_entry_def contains_iff_sublist)

lemma list_ex_snort:
  "list_ex (\<lambda>e. contains (fst e) t) snort_patterns = list_ex (\<lambda>c. sublist c t) snort_codes"
  by (simp add: snort_patterns_def snort_codes_def contains_iff_sublist)

lemma cleaned_Nil: "cleaned [] = []"
  by (simp add: cleaned_def strip_def rstrip_where_def remove_all_def)

text \<open>
  Claim C3.  For every flag string, the decoded elephant flag type is the last code of the
  enumeration N3, N4, N5, N6 (in that order) that is a substring of the cleaned flag
  string, whatever the positions of the codes in the string; the elephant flag is set
  exactly when one of N3 to N6 occurs; the connection counts as Snort inspected exactly
  when one of N1 to N6 occurs, and the Snort flags are the occurring codes of N1 to N6 in
  the order of the table.  "N6N3" and "N3N6" both decode to N6; "UIO N1N3" decodes to the
  elephant type N3 with the Snort flags N1, N3 and the TCP state flags U, I, O.
\<close>

theorem parse_connection_flags_last_elephant_code:
  "get_elephant_flag_type (parse_connection_flags (Some s)) = last_code_in elephant_codes (cleaned s) \<and>
   get_has_elephant_flag (parse_connection_flags (Some s)) =
     list_ex (\<lambda>c. sublist c (cleaned s)) elephant_codes \<and>
   get_is_snort_inspected (parse_connection_flags (Some s)) =
     list_ex (\<lambda>c. sublist c (cleaned s)) snort_codes \<and>
   get_snort_flags (parse_connection_flags (Some s)) =
     filter (\<lambda>e. sublist (fst e) (cleaned s)) snort_patterns \<and>
   map fst snort_patterns = snort_codes \<and>
   get_elephant_flag_type (parse_connection_flags (Some ''N6N3'')) = Some ''N6'' \<and>
   get_elephant_flag_type (parse_connection_flags (Some ''N3N6'')) = Some ''N6'' \<and>
   get_elephant_flag_type (parse_connection_flags (Some ''UIO N1N3'')) = Some ''N3'' \<and>
   get_has_elephant_flag (parse_connection_flags (Some ''UIO N1N3'')) = True \<and>
   map fst (get_snort_flags (parse_connection_flags (Some ''UIO N1N3''))) = [''N1'', ''N3''] \<and>
   map fst (get_tcp_state_flags (parse_connection_flags (Some ''UIO N1N3''))) = [''U'', ''I'', ''O'']"
proof -
  have general:
    "get_elephant_flag_type (parse_connection_flags (Some s)) = last_code_in elephant_codes (cleaned s) \<and>
     get_has_elephant_flag (parse_connection_flags (Some s)) =
       list_ex (\<lambda>c. sublist c (cleaned s)) elephant_codes \<and>
     get_is_snort_inspected (parse_connection_flags (Some s)) =
       list_ex (\<lambda>c. sublist c (cleaned s)) snort_codes \<and>
     get_snort_flags (parse_connection_flags (Some s)) =
       filter (\<lambda>e. sublist (fst e) (cleaned s)) snort_patterns"
  proof (cases "s = []")
    case True
    then show ?thesis
      by (simp add: parse_connection_flags_def get_elephant_flag_type_def get_has_elephant_flag_def
          get_is_snort_inspected_def get_snort_flags_def cleaned_Nil last_code_in_def
          elephant_codes_def snort_codes_def snort_patterns_def)
  next
    case False
    from parse_connection_flags_snort [OF False] obtain fi where
      fi: "parse_connection_flags (Some s) = Some fi"
        "snort_flags fi = filter (\<lambda>e. contains (fst e) (cleaned s)) snort_patterns"
        "is_snort_inspected fi = list_ex (\<lambda>e. contains (fst e) (cleaned s)) snort_patterns"
        "has_elephant_flag fi = list_ex (is_elephant_entry (cleaned s)) snort_patterns"
        "elephant_flag_type fi =
           (case filter (is_elephant_entry (cleaned s)) snort_patterns of
              [] \<Rightarrow> None | x # xs \<Rightarrow> Some (fst (last (x # xs))))"
      by blast
    show ?thesis
      unfolding fi(1) get_elephant_flag_type_def get_has_elephant_flag_def
        get_is_snort_inspected_def get_snort_flags_def option.case fi(2-5)
        last_entry_code list_ex_elephant list_ex_snort
      by (simp add: contains_iff_sublist)
  qed
  have codes: "map fst snort_patterns = snort_codes"
    by (simp add: snort_patterns_def snort_codes_def)
  have e1: "get_elephant_flag_type (parse_connection_flags (Some ''N6N3'')) = Some ''N6''" by code_simp
  have e2: "get_elephant_flag_type (parse_connection_flags (Some ''N3N6'')) = Some ''N6''" by code_simp
  have e3: "get_elephant_flag_type (parse_connection_flags (Some ''UIO N1N3'')) = Some ''N3''" by code_simp
  have e4: "get_has_elephant_flag (parse_connection_flags (Some ''UIO N1N3'')) = True" by code_simp
  have e5: "map fst (get_snort_flags (parse_connection_flags (Some ''UIO N1N3''))) = [''N1'', ''N3'']" by code_simp
  have e6: "map fst (get_tcp_state_flags (parse_connection_flags (Some ''UIO N1N3''))) = [''U'', ''I'', ''O'']" by code_simp
  from general codes e1 e2 e3 e4 e5 e6 show ?thesis by blast
qed

text \<open>
  Claim C6.  For a missing and for an empty flag string the decoder raises nothing and
  returns the empty dictionary, which every caller reads as the all-default
  classification: no elephant flag, no elephant flag type, not offloaded, not Snort
  inspected, and the four flag sequences empty.
\<close>

theorem parse_connection_flags_empty_input:
  "list_all (\<lambda>flags_str.
      parse_connection_flags flags_str = None \<and>
      get_has_elephant_flag (parse_connection_flags flags_str) = False \<and>
      get_elephant_flag_type (parse_connection_flags flags_str) = None \<and>
      get_is_offloaded (parse_connection_flags flags_str) = False \<and>
      get_is_snort_inspected (parse_connection_flags flags_str) = False \<and>
      get_snort_flags (parse_connection_flags flags_str) = [] \<and>
      get_tcp_state_flags (parse_connection_flags flags_str) = [] \<and>
      get_protocol_flags (parse_connection_flags flags_str) = [] \<and>
      get_special_flags (parse_connection_flags flags_str) = [])
    [None, Some []]"
  by (simp add: parse_connection_flags_def get_has_elephant_flag_def get_elephant_flag_type_def
      get_is_offloaded_def get_is_snort_inspected_def get_snort_flags_def
      get_tcp_state_flags_def get_protocol_flags_def get_special_flags_def)

section \<open>Properties of the rate calculator\<close>

lemma round53_tenth: "round53 (1 / 10) = 3602879701896397 / 36028797018963968"
  by (subst round53_eqI [where e = "- 4" and n = 7205759403792794]) (simp_all add: pow2_def)

lemma fge_mono: "fge m a \<Longrightarrow> b \<le> a \<Longrightarrow> fge m b"
  by (cases m) (auto simp: fge_def)

lemma category_chain_bands:
  "category_bands m
     (if fge m 1000 then ''extremely_high''
      else if fge m 100 then ''very_high''
      else if fge m 10 then ''high''
      else if fge m 1 then ''medium''
      else if fge m (round53 (1 / 10)) then ''low''
      else ''very_low'')"
proof -
  have t: "round53 (1 / 10) \<le> 1" by (simp add: round53_tenth)
  have 1: "fge m 1000 \<Longrightarrow> fge m 100" by (erule fge_mono) simp
  have 2: "fge m 100 \<Longrightarrow> fge m 10" by (erule fge_mono) simp
  have 3: "fge m 10 \<Longrightarrow> fge m 1" by (erule fge_mono) simp
  have 4: "fge m 1 \<Longrightarrow> fge m (round53 (1 / 10))" using t by (rule fge_mono [rotated])
  show ?thesis
    unfolding category_bands_def using 1 2 3 4 by auto
qed

lemma calculate_traffic_rate_nonpos:
  "s \<le> 0 \<Longrightarrow> calculate_traffic_rate b s = Inr zero_rate"
  by (simp add: calculate_traffic_rate_def zero_rate_def)

lemma int_true_div_cases:
  assumes "0 \<le> b" "0 < s"
  shows "int_true_div b s =
     (if 2 ^ 1024 \<le> round53 (of_int b / of_int s) then Inl OverflowError
      else Inr (Finite (round53 (of_int b / of_int s))))"
proof -
  have "(0::rat) \<le> of_int b / of_int s" using assms by simp
  then have "0 \<le> round53 (of_int b / of_int s)" by (rule round53_nonneg)
  then have "\<bar>round53 (of_int b / of_int s)\<bar> = round53 (of_int b / of_int s)" by simp
  then show ?thesis using assms by (simp add: int_true_div_def Let_def)
qed

lemma calculate_traffic_rate_overflow:
  assumes "0 \<le> b" "0 < s" "2 ^ 1024 \<le> round53 (of_int b / of_int s)"
  shows "calculate_traffic_rate b s = Inl OverflowError"
  using assms by (simp add: calculate_traffic_rate_def int_true_div_cases)

lemma calculate_traffic_rate_pos:
  assumes "0 \<le> b" "0 < s" "round53 (of_int b / of_int s) < 2 ^ 1024"
  shows "\<exists>r. calculate_traffic_rate b s = Inr r \<and>
           bytes_per_second r = Finite (round53 (of_int b / of_int s)) \<and>
           int_true_div b s = Inr (bytes_per_second r) \<and>
           bytes_per_minute r = fmul_int (bytes_per_second r) 60 \<and>
           bytes_per_hour r = fmul_int (bytes_per_second r) 3600 \<and>
           fdiv_int (fmul_int (bytes_per_second r) 8) (1024 * 1024) = Inr (mbps r) \<and>
           category_bands (mbps r) (rate_category r)"
proof -
  have d: "int_true_div b s = Inr (Finite (round53 (of_int b / of_int s)))"
    using assms by (simp add: int_true_div_cases)
  obtain m where m: "fdiv_int (fmul_int (Finite (round53 (of_int b / of_int s))) 8) 1048576 = Inr m"
    by (simp add: fdiv_int_def)
  show ?thesis
    using assms(2) category_chain_bands [of m]
    by (simp add: calculate_traffic_rate_def d m Let_def)
qed

lemma sample_mbps:
  "calculate_traffic_rate 7688943400093 33696000 = Inr r \<Longrightarrow>
     mbps r = Finite (3920199482929069 / 2251799813685248) \<and> rate_category r = ''medium''"
proof -
  assume a: "calculate_traffic_rate 7688943400093 33696000 = Inr r"
  have q: "round53 (of_int 7688943400093 / of_int 33696000) = 3920199482929069 / 17179869184"
    using round53_sample_quotient by simp
  have lt: "round53 (of_int 7688943400093 / of_int 33696000) < 2 ^ 1024"
    unfolding q by simp
  from calculate_traffic_rate_pos [of 7688943400093 33696000, OF _ _ lt] a
  have bps: "bytes_per_second r = Finite (3920199482929069 / 17179869184)"
    and m: "fdiv_int (fmul_int (bytes_per_second r) 8) (1024 * 1024) = Inr (mbps r)"
    and c: "category_bands (mbps r) (rate_category r)"
    unfolding q by auto
  have r8: "round53 (3920199482929069 / 2147483648) = 3920199482929069 / 2147483648"
    by (subst round53_eqI [where e = 20 and n = 7840398965858138]) (simp_all add: pow2_def)
  have rm: "round53 (3920199482929069 / 2251799813685248) = 3920199482929069 / 2251799813685248"
    by (subst round53_eqI [where e = 0 and n = 7840398965858138]) (simp_all add: pow2_def)
  have "fmul_int (bytes_per_second r) 8 = Finite (3920199482929069 / 2147483648)"
    unfolding bps fmul_int_def fl_def Let_def by (simp add: r8)
  then have "fdiv_int (fmul_int (bytes_per_second r) 8) (1024 * 1024) =
        Inr (Finite (3920199482929069 / 2251799813685248))"
    unfolding fdiv_int_def fl_def Let_def by (simp add: rm)
  with m have mv: "mbps r = Finite (3920199482929069 / 2251799813685248)" by simp
  from c have "(rate_category r = ''medium'') = (fge (mbps r) 1 \<and> \<not> fge (mbps r) 10)"
    unfolding category_bands_def by blast
  then have "rate_category r = ''medium''" unfolding mv by (simp add: fge_def)
  with mv show ?thesis by simp
qed

lemma overflow_example: "calculate_traffic_rate (10 ^ 309) 1 = Inl OverflowError"
proof -
  have "(2::rat) ^ 1024 \<le> round53 (of_int (10 ^ 309) / of_int 1)"
    using round53_ten_power_309 by simp
  then show ?thesis by (intro calculate_traffic_rate_overflow) simp_all
qed

text \<open>
  Claim C4, as amended.  For every byte count \<open>b \<ge> 0\<close> and every number of seconds \<open>s\<close>:
  if \<open>s \<le> 0\<close> the four rates are 0 and the category is "unknown"; if \<open>0 < s\<close> and the
  correctly rounded quotient \<open>b / s\<close> is below \<open>2 ^ 1024\<close> (as it is whenever
  \<open>b < 2 ^ 1023\<close>), the calculator returns a result whose bytes per second are that
  quotient, whose mbps are the bytes per second times 8 divided by 1024 * 1024 in float
  arithmetic, and whose category is the band of the mbps between the thresholds 1000,
  100, 10, 1 and 0.1; if \<open>0 < s\<close> and the rounded quotient reaches \<open>2 ^ 1024\<close> the calculator
  raises OverflowError.  7688943400093 bytes in 33696000 seconds give 1.7409... mbps, which
  rounds to 1.74, and the category "medium".
\<close>

theorem calculate_traffic_rate_cases:
  assumes "0 \<le> b"
  shows
  "(s \<le> 0 \<longrightarrow> calculate_traffic_rate b s = Inr zero_rate) \<and>
   (0 < s \<and> round53 (of_int b / of_int s) < 2 ^ 1024 \<longrightarrow>
      (\<exists>r. calculate_traffic_rate b s = Inr r \<and>
           int_true_div b s = Inr (bytes_per_second r) \<and>
           bytes_per_second r = Finite (round53 (of_int b / of_int s)) \<and>
           fdiv_int (fmul_int (bytes_per_second r) 8) (1024 * 1024) = Inr (mbps r) \<and>
           category_bands (mbps r) (rate_category r))) \<and>
   (0 < s \<and> 2 ^ 1024 \<le> round53 (of_int b / of_int s) \<longrightarrow>
      calculate_traffic_rate b s = Inl OverflowError) \<and>
   (0 < s \<and> b < 2 ^ 1023 \<longrightarrow> round53 (of_int b / of_int s) < 2 ^ 1024) \<and>
   (\<exists>r. calculate_traffic_rate 7688943400093 33696000 = Inr r \<and>
        mbps r = Finite (3920199482929069 / 2251799813685248) \<and>
        rate_category r = ''medium'') \<and>
   (1735 / 1000 :: rat) \<le> 3920199482929069 / 2251799813685248 \<and>
   (3920199482929069 / 2251799813685248 :: rat) < 1745 / 1000"
proof -
  have a: "s \<le> 0 \<longrightarrow> calculate_traffic_rate b s = Inr zero_rate"
    by (simp add: calculate_traffic_rate_nonpos)
  have b: "0 < s \<and> round53 (of_int b / of_int s) < 2 ^ 1024 \<longrightarrow>
      (\<exists>r. calculate_traffic_rate b s = Inr r \<and>
           int_true_div b s = Inr (bytes_per_second r) \<and>
           bytes_per_second r = Finite (round53 (of_int b / of_int s)) \<and>
           fdiv_int (fmul_int (bytes_per_second r) 8) (1024 * 1024) = Inr (mbps r) \<and>
           category_bands (mbps r) (rate_category r))"
    using calculate_traffic_rate_pos [OF assms, of s] by blast
  have c: "0 < s \<and> 2 ^ 1024 \<le> round53 (of_int b / of_int s) \<longrightarrow>
      calculate_traffic_rate b s = Inl OverflowError"
    using calculate_traffic_rate_overflow [OF assms, of s] by blast
  have d: "0 < s \<and> b < 2 ^ 1023 \<longrightarrow> round53 (of_int b / of_int s) < 2 ^ 1024"
  proof
    assume h: "0 < s \<and> b < 2 ^ 1023"
    have "int_true_div b s = Inr (Finite (round53 (of_int b / of_int s)))"
      using assms h by (intro int_true_div_in_range) simp_all
    then show "round53 (of_int b / of_int s) < 2 ^ 1024"
      using assms h by (simp add: int_true_div_cases split: if_splits)
  qed
  have lt: "round53 (of_int 7688943400093 / of_int 33696000) < 2 ^ 1024"
    using round53_sample_quotient by simp
  from calculate_traffic_rate_pos [of 7688943400093 33696000, OF _ _ lt]
  obtain r where r: "calculate_traffic_rate 7688943400093 33696000 = Inr r" by auto
  have e: "\<exists>r. calculate_traffic_rate 7688943400093 33696000 = Inr r \<and>
        mbps r = Finite (3920199482929069 / 2251799813685248) \<and>
        rate_category r = ''medium''"
    using r sample_mbps [OF r] by blast
  have f: "(1735 / 1000 :: rat) \<le> 3920199482929069 / 2251799813685248"
    "(3920199482929069 / 2251799813685248 :: rat) < 1745 / 1000"
    by simp_all
  from a b c d e f show ?thesis by blast
qed

theorem calculate_traffic_rate_cases_witness:
  "calculate_traffic_rate 28 0 = Inr zero_rate \<and>
   (\<exists>r. calculate_traffic_rate 7688943400093 33696000 = Inr r \<and>
        bytes_per_second r = Finite (3920199482929069 / 17179869184) \<and>
        category_bands (mbps r) (rate_category r)) \<and>
   calculate_traffic_rate (10 ^ 309) 1 = Inl OverflowError \<and>
   round53 (of_int 28 / of_int 21) < 2 ^ 1024"
proof -
  have q: "round53 (of_int 7688943400093 / of_int 33696000) = 3920199482929069 / 17179869184"
    using round53_sample_quotient by simp
  have lt: "(0::int) < 33696000 \<and> round53 (of_int 7688943400093 / of_int 33696000) < 2 ^ 1024"
    unfolding q by simp
  have big: "(0::int) < 1 \<and> (2::rat) ^ 1024 \<le> round53 (of_int (10 ^ 309) / of_int 1)"
    using round53_ten_power_309 by simp
  have n1: "(0::int) \<le> 28" and n2: "(0::int) \<le> 7688943400093" and n3: "(0::int) \<le> 10 ^ 309"
    by simp_all
  have w1: "calculate_traffic_rate 28 0 = Inr zero_rate"
    using calculate_traffic_rate_cases [OF n1, of 0] by simp
  have w2: "\<exists>r. calculate_traffic_rate 7688943400093 33696000 = Inr r \<and>
        bytes_per_second r = Finite (3920199482929069 / 17179869184) \<and>
        category_bands (mbps r) (rate_category r)"
    using calculate_traffic_rate_cases [OF n2, of 33696000] lt unfolding q by blast
  have w3: "calculate_traffic_rate (10 ^ 309) 1 = Inl OverflowError"
    using calculate_traffic_rate_cases [OF n3, of 1] big by blast
  have w4: "round53 (of_int 28 / of_int 21) < 2 ^ 1024"
    using calculate_traffic_rate_cases [OF n1, of 21] by simp
  from w1 w2 w3 w4 show ?thesis by blast
qed

text \<open>
  The claim C4 as first stated fails: for the byte count \<open>10 ^ 309\<close> and one second no rate
  is returned, the division raises OverflowError.
\<close>

theorem calculate_traffic_rate_counterexample:
  "calculate_traffic_rate (10 ^ 309) 1 = Inl OverflowError \<and>
   \<not> (\<exists>r. calculate_traffic_rate (10 ^ 309) 1 = Inr r)"
proof -
  have a: "calculate_traffic_rate (10 ^ 309) 1 = Inl OverflowError"
    by (rule overflow_example)
  have "\<not> (\<exists>r. calculate_traffic_rate (10 ^ 309) 1 = Inr r)"
    unfolding a by blast
  with a show ?thesis by blast
qed

end
